theory Spec2Isabelle
  imports Main "HOL-Library.Sublist" "HOL-Library.AList"
begin

section \<open>Strings of the interpreter\<close>

text \<open>
  A Python string is modelled as a \<^typ>\<open>string\<close>: a list of characters, each read as the
  code point of its number, so the model covers the strings over U+0000 .. U+00FF.
  The character classes below are the interpreter's own on that range
  (\<^verbatim>\<open>str.isdecimal\<close>, \<^verbatim>\<open>str.isdigit\<close>, \<^verbatim>\<open>str.isalnum\<close>, \<^verbatim>\<open>str.isspace\<close>,
  \<^verbatim>\<open>str.lower\<close>).
\<close>

definition ord :: "char \<Rightarrow> nat" where
  "ord c = of_char c"

definition chr_isdecimal :: "char \<Rightarrow> bool" where
  "chr_isdecimal c = (48 \<le> ord c \<and> ord c \<le> 57)"

definition chr_isdigit :: "char \<Rightarrow> bool" where
  "chr_isdigit c = (chr_isdecimal c \<or> ord c = 178 \<or> ord c = 179 \<or> ord c = 185)"

definition chr_isalnum :: "char \<Rightarrow> bool" where
  "chr_isalnum c =
     (let n = ord c in
        (48 \<le> n \<and> n \<le> 57) \<or> (65 \<le> n \<and> n \<le> 90) \<or> (97 \<le> n \<and> n \<le> 122) \<or>
        n = 170 \<or> n = 178 \<or> n = 179 \<or> n = 181 \<or> n = 185 \<or> n = 186 \<or>
        (188 \<le> n \<and> n \<le> 190) \<or> (192 \<le> n \<and> n \<le> 214) \<or>
        (216 \<le> n \<and> n \<le> 246) \<or> (248 \<le> n \<and> n \<le> 255))"

definition chr_isspace :: "char \<Rightarrow> bool" where
  "chr_isspace c =
     (let n = ord c in (9 \<le> n \<and> n \<le> 13) \<or> (28 \<le> n \<and> n \<le> 32) \<or> n = 133 \<or> n = 160)"

definition chr_lower :: "char \<Rightarrow> char" where
  "chr_lower c =
     (let n = ord c in
        if (65 \<le> n \<and> n \<le> 90) \<or> (192 \<le> n \<and> n \<le> 214) \<or> (216 \<le> n \<and> n \<le> 222)
        then char_of (n + 32) else c)"

text \<open>\<^verbatim>\<open>s.isdigit()\<close>: every character is a digit and there is at least one.\<close>

definition isdigit :: "string \<Rightarrow> bool" where
  "isdigit s = (s \<noteq> [] \<and> list_all chr_isdigit s)"

definition lower :: "string \<Rightarrow> string" where
  "lower s = map chr_lower s"

text \<open>\<^verbatim>\<open>s.endswith(t)\<close> and \<^verbatim>\<open>s.startswith(t)\<close>.\<close>

definition endswith :: "string \<Rightarrow> string \<Rightarrow> bool" where
  "endswith s t = suffix t s"

definition startswith :: "string \<Rightarrow> string \<Rightarrow> bool" where
  "startswith s t = prefix t s"

text \<open>\<^verbatim>\<open>s.strip(chars)\<close> for a set of characters given as a predicate.\<close>

definition strip_chars :: "(char \<Rightarrow> bool) \<Rightarrow> string \<Rightarrow> string" where
  "strip_chars P s = rev (dropWhile P (rev (dropWhile P s)))"

text \<open>\<^verbatim>\<open>s.split(sep)\<close> for a separator of one character: never the empty list.\<close>

fun split :: "char \<Rightarrow> string \<Rightarrow> string list" where
  "split sep [] = [[]]"
| "split sep (c # cs) =
     (if c = sep then [] # split sep cs
      else (case split sep cs of [] \<Rightarrow> [[c]] | w # ws \<Rightarrow> (c # w) # ws))"

text \<open>\<^verbatim>\<open>s.replace(a, b)\<close> for single characters.\<close>

definition replace :: "char \<Rightarrow> char \<Rightarrow> string \<Rightarrow> string" where
  "replace a b s = map (\<lambda>c. if c = a then b else c) s"

section \<open>Exceptions\<close>

datatype error =
    KeyError | TypeError | AttributeError | ValueError | IndexError
  | OSError | HTTPError | ConnectionError | JSONDecodeError

text \<open>
  \<^verbatim>\<open>int(s)\<close> on a string that passed \<^verbatim>\<open>isdigit\<close> or matched \<^verbatim>\<open>\d+\<close>: the decimal value
  when every character is a decimal digit, \<^verbatim>\<open>ValueError\<close> otherwise (the superscript
  digits are digits, not decimals). The interpreter's configurable limit on the number of
  digits of such a conversion is not modelled.
\<close>

definition digit_val :: "char \<Rightarrow> int" where
  "digit_val c = int (ord c) - 48"

definition decimal_value :: "string \<Rightarrow> int" where
  "decimal_value s = foldl (\<lambda>acc c. 10 * acc + digit_val c) 0 s"

definition py_int :: "string \<Rightarrow> error + int" where
  "py_int s = (if s \<noteq> [] \<and> list_all chr_isdecimal s then Inr (decimal_value s) else Inl ValueError)"


section \<open>JSON values and dictionaries\<close>

text \<open>
  The values that \<^verbatim>\<open>response.json()\<close> yields. A dictionary is an association list read
  with \<^const>\<open>map_of\<close> (the first binding of a key is its value); \<open>JNull\<close> is \<^verbatim>\<open>None\<close>.
  Numbers are integers: fractional numbers are outside the model.
\<close>

datatype json =
    JNull
  | JBool bool
  | JNum int
  | JStr string
  | JArr "json list"
  | JObj "(string \<times> json) list"

type_synonym dict = "(string \<times> json) list"

text \<open>The truth value of an object in a condition.\<close>

fun truthy :: "json \<Rightarrow> bool" where
  "truthy JNull = False"
| "truthy (JBool b) = b"
| "truthy (JNum n) = (n \<noteq> 0)"
| "truthy (JStr s) = (s \<noteq> [])"
| "truthy (JArr xs) = (xs \<noteq> [])"
| "truthy (JObj kvs) = (kvs \<noteq> [])"

text \<open>\<^verbatim>\<open>k in d\<close>, \<^verbatim>\<open>d.get(k)\<close> and \<^verbatim>\<open>d.get(k, default)\<close> on a dictionary.\<close>

definition has_key :: "dict \<Rightarrow> string \<Rightarrow> bool" where
  "has_key d k = (map_of d k \<noteq> None)"

definition dict_get :: "dict \<Rightarrow> string \<Rightarrow> json" where
  "dict_get d k = (case map_of d k of None \<Rightarrow> JNull | Some v \<Rightarrow> v)"

definition dict_get_default :: "dict \<Rightarrow> string \<Rightarrow> json \<Rightarrow> json" where
  "dict_get_default d k dflt = (case map_of d k of None \<Rightarrow> dflt | Some v \<Rightarrow> v)"

text \<open>
  The same operations on a value of any type, as the interpreter dispatches them:
  \<^verbatim>\<open>k in x\<close> with a string \<open>k\<close> (a key test on a dictionary, a substring test on a string,
  a membership test on a list, \<^verbatim>\<open>TypeError\<close> otherwise), \<^verbatim>\<open>x[k]\<close> (only a dictionary can
  be subscripted by a string) and \<^verbatim>\<open>x.get(k)\<close> (only a dictionary has the method).
\<close>

fun py_in :: "string \<Rightarrow> json \<Rightarrow> error + bool" where
  "py_in k (JObj d) = Inr (has_key d k)"
| "py_in k (JStr s) = Inr (sublist k s)"
| "py_in k (JArr xs) = Inr (JStr k \<in> set xs)"
| "py_in k JNull = Inl TypeError"
| "py_in k (JBool b) = Inl TypeError"
| "py_in k (JNum n) = Inl TypeError"

fun py_getitem :: "json \<Rightarrow> string \<Rightarrow> error + json" where
  "py_getitem (JObj d) k = (case map_of d k of None \<Rightarrow> Inl KeyError | Some v \<Rightarrow> Inr v)"
| "py_getitem x k = Inl TypeError"

fun py_get :: "json \<Rightarrow> string \<Rightarrow> error + json" where
  "py_get (JObj d) k = Inr (dict_get d k)"
| "py_get x k = Inl AttributeError"

text \<open>Sequencing of steps that may raise: the first exception ends the sequence.\<close>

definition bindE :: "error + 'a \<Rightarrow> ('a \<Rightarrow> error + 'b) \<Rightarrow> error + 'b" where
  "bindE m f = (case m of Inl e \<Rightarrow> Inl e | Inr x \<Rightarrow> f x)"

section \<open>Console output\<close>

text \<open>
  What the modelled code prints is a list of messages, one for a \<^verbatim>\<open>print\<close> or for a
  block of them; the wording of a message and the text of an exception inside it are not
  modelled, its kind and its arguments are.
  The archiver is modelled with \<^verbatim>\<open>verbose\<close> off, the default of \<^verbatim>\<open>process_game\<close>:
  the verbose reports, which only print, are not part of the model.
\<close>

record java_info =
  ji_filename :: json
  ji_java_class :: json
  ji_java_archive :: json
  ji_java_codebase :: json
  ji_title :: string
  ji_width :: json
  ji_height :: json

datatype msg =
    Error_extracting_game_id error
  | Error_extracting_token error
  | No_token_found_in_URL json
  | Error_fetching_build json error
  | File_already_exists string
  | Downloading string int
  | Progress int int
  | Downloaded_to string
  | Error_downloading_file error
  | Created_CheerpJ_HTML_file string
  | Error_creating_CheerpJ_HTML_file error
  | Java_Class_Information "java_info list"
  | No_JAR_files_found
  | No_builds_found

section \<open>The URL library\<close>

text \<open>
  \<^verbatim>\<open>urllib.parse.urlparse\<close> and \<^verbatim>\<open>parse_qs\<close> belong to the interpreter's library, not to
  the archiver. The archiver's functions take them as a parameter, so every theorem about
  the archiver holds for whatever these two compute; \<open>urlparse\<close> may raise.
  \<open>parse_qs\<close> returns a dictionary from names to lists of values, here an association
  list read with \<^const>\<open>map_of\<close>.
\<close>

record parsed_url =
  scheme :: string
  netloc :: string
  path :: string
  params :: string
  query :: string
  fragment :: string

record urllib =
  urlparse :: "string \<Rightarrow> error + parsed_url"
  parse_qs :: "string \<Rightarrow> (string \<times> string list) list"

subsection \<open>An instance for plain URLs\<close>

text \<open>
  \<open>plain_urllib\<close> follows the library's algorithm on URLs of the plain kind
  \<^verbatim>\<open>scheme://host/path;params?query#fragment\<close>: ASCII characters, no bracketed host, no
  percent escapes in the query string. It is used to run the archiver on concrete URLs.
\<close>

definition scheme_chars :: "char \<Rightarrow> bool" where
  "scheme_chars c =
     (let n = ord c in
        (48 \<le> n \<and> n \<le> 57) \<or> (65 \<le> n \<and> n \<le> 90) \<or> (97 \<le> n \<and> n \<le> 122) \<or>
        c = CHR ''+'' \<or> c = CHR ''-'' \<or> c = CHR ''.'')"

definition chr_isascii_alpha :: "char \<Rightarrow> bool" where
  "chr_isascii_alpha c = (let n = ord c in (65 \<le> n \<and> n \<le> 90) \<or> (97 \<le> n \<and> n \<le> 122))"

text \<open>The text before the first separator and the text after it.\<close>

definition partition_at :: "char \<Rightarrow> string \<Rightarrow> string \<times> string" where
  "partition_at sep s = (takeWhile (\<lambda>c. c \<noteq> sep) s, drop 1 (dropWhile (\<lambda>c. c \<noteq> sep) s))"

definition split_scheme :: "string \<Rightarrow> string \<times> string" where
  "split_scheme url =
     (let pre = takeWhile (\<lambda>c. c \<noteq> CHR '':'') url in
      if CHR '':'' \<in> set url \<and> pre \<noteq> [] \<and> chr_isascii_alpha (hd url) \<and> list_all scheme_chars pre
      then (lower pre, drop (Suc (length pre)) url) else ([], url))"

definition split_netloc :: "string \<Rightarrow> string \<times> string" where
  "split_netloc url =
     (if startswith url ''//'' then
        (takeWhile (\<lambda>c. c \<notin> set ''/?#'') (drop 2 url),
         dropWhile (\<lambda>c. c \<notin> set ''/?#'') (drop 2 url))
      else ([], url))"

definition split_params :: "string \<Rightarrow> string \<times> string" where
  "split_params url =
     (let tail = rev (takeWhile (\<lambda>c. c \<noteq> CHR ''/'') (rev url));
          head = take (length url - length tail) url
      in if CHR '';'' \<in> set tail
         then (head @ fst (partition_at CHR '';'' tail), snd (partition_at CHR '';'' tail))
         else (url, []))"

definition uses_params :: "string list" where
  "uses_params = [[], ''ftp'', ''hdl'', ''prospero'', ''http'', ''imap'', ''https'', ''shttp'',
     ''rtsp'', ''rtspu'', ''sip'', ''sips'', ''mms'', ''sftp'', ''tel'']"

definition plain_urlparse :: "string \<Rightarrow> error + parsed_url" where
  "plain_urlparse url0 =
     (let url1 = filter (\<lambda>c. c \<notin> set [CHR 0x09, CHR 0x0A, CHR 0x0D])
                   (dropWhile (\<lambda>c. ord c \<le> 32) url0);
          (sch, url2) = split_scheme url1;
          (loc, url3) = split_netloc url2
      in if (CHR ''['' \<in> set loc) \<noteq> (CHR '']'' \<in> set loc) then Inl ValueError
         else
           (let (url4, frag) = partition_at CHR ''#'' url3;
                (url5, qry) = partition_at CHR ''?'' url4;
                (pth, prm) = (if sch \<in> set uses_params then split_params url5 else (url5, []))
            in Inr \<lparr>scheme = sch, netloc = loc, path = pth, params = prm, query = qry,
                    fragment = frag\<rparr>))"

fun add_value ::
  "string \<Rightarrow> string \<Rightarrow> (string \<times> string list) list \<Rightarrow> (string \<times> string list) list" where
  "add_value k v [] = [(k, [v])]"
| "add_value k v ((k', vs) # kvs) =
     (if k = k' then (k', vs @ [v]) # kvs else (k', vs) # add_value k v kvs)"

definition plain_parse_qs :: "string \<Rightarrow> (string \<times> string list) list" where
  "plain_parse_qs qs =
     foldl (\<lambda>d field.
              if CHR ''='' \<in> set field \<and> snd (partition_at CHR ''='' field) \<noteq> []
              then add_value (replace CHR ''+'' CHR '' '' (fst (partition_at CHR ''='' field)))
                             (replace CHR ''+'' CHR '' '' (snd (partition_at CHR ''='' field))) d
              else d)
           [] (split CHR ''&'' qs)"

definition plain_urllib :: urllib where
  "plain_urllib = \<lparr>urlparse = plain_urlparse, parse_qs = plain_parse_qs\<rparr>"

section \<open>Identifier resolution\<close>

text \<open>
  \<^verbatim>\<open>re.search(r'/games/[^/]+/(\d+)/?', s)\<close>, returning group 1 of the leftmost match.
  \<open>game_id_match_at\<close> is the match anchored at the start of its argument: after the literal
  \<^verbatim>\<open>/games/\<close> the class \<^verbatim>\<open>[^/]+\<close> has to run up to the next slash (a shorter run is
  followed by a character that is not a slash), and the greedy \<^verbatim>\<open>\d+\<close> takes the longest
  run of decimal digits; the optional final slash never fails.
\<close>

definition game_id_match_at :: "string \<Rightarrow> string option" where
  "game_id_match_at s =
     (if startswith s ''/games/'' then
        (let rest = drop 7 s;
             slug = takeWhile (\<lambda>c. c \<noteq> CHR ''/'') rest;
             after = dropWhile (\<lambda>c. c \<noteq> CHR ''/'') rest
         in if slug \<noteq> [] \<and> after \<noteq> [] \<and> takeWhile chr_isdecimal (tl after) \<noteq> []
            then Some (takeWhile chr_isdecimal (tl after)) else None)
      else None)"

fun re_search_game_id :: "string \<Rightarrow> string option" where
  "re_search_game_id [] = game_id_match_at []"
| "re_search_game_id (c # cs) =
     (case game_id_match_at (c # cs) of Some ds \<Rightarrow> Some ds | None \<Rightarrow> re_search_game_id cs)"

text \<open>
  \<^verbatim>\<open>GameJoltArchiver.extract_game_id_from_url\<close>. The result is paired with what the
  function prints: the message of its \<^verbatim>\<open>except\<close> branch, which turns every exception of
  the body into \<^verbatim>\<open>None\<close>.
\<close>

definition extract_game_id_body :: "urllib \<Rightarrow> string \<Rightarrow> error + int option" where
  "extract_game_id_body L url =
     (case urlparse L url of
        Inl e \<Rightarrow> Inl e
      | Inr parsed_url \<Rightarrow>
          if \<not> endswith (netloc parsed_url) ''gamejolt.com'' then Inr None
          else
            (let segs = split CHR ''/'' (strip_chars (\<lambda>c. c = CHR ''/'') (path parsed_url)) in
             if 3 \<le> length segs \<and> hd segs = ''games'' then
               (if isdigit (last segs) then
                  (case py_int (last segs) of Inl e \<Rightarrow> Inl e | Inr n \<Rightarrow> Inr (Some n))
                else
                  (case re_search_game_id (path parsed_url) of
                     Some ds \<Rightarrow> (case py_int ds of Inl e \<Rightarrow> Inl e | Inr n \<Rightarrow> Inr (Some n))
                   | None \<Rightarrow> Inr None))
             else Inr None))"

definition extract_game_id_from_url :: "urllib \<Rightarrow> string \<Rightarrow> int option \<times> msg list" where
  "extract_game_id_from_url L url =
     (case extract_game_id_body L url of
        Inl e \<Rightarrow> (None, [Error_extracting_game_id e])
      | Inr r \<Rightarrow> (r, []))"

section \<open>Token extraction\<close>

text \<open>
  \<^verbatim>\<open>GameJoltArchiver.extract_token_from_url\<close>: first the query parameter \<^verbatim>\<open>token\<close>, then
  the branch for a direct token URL. \<^verbatim>\<open>query_params['token'][0]\<close> raises on an empty list.
\<close>

definition first_of :: "string list \<Rightarrow> error + string option" where
  "first_of vs = (case vs of [] \<Rightarrow> Inl IndexError | v # _ \<Rightarrow> Inr (Some v))"

definition extract_token_body :: "urllib \<Rightarrow> string \<Rightarrow> error + string option" where
  "extract_token_body L url =
     (case urlparse L url of
        Inl e \<Rightarrow> Inl e
      | Inr parsed_url \<Rightarrow>
          (let query_params = parse_qs L (query parsed_url) in
           case map_of query_params ''token'' of
             Some vs \<Rightarrow> first_of vs
           | None \<Rightarrow>
               if netloc parsed_url = ''gamejolt.net'' \<and> path parsed_url = [] then
                 (let query_params = parse_qs L (query parsed_url) in
                  case map_of query_params ''token'' of
                    Some vs \<Rightarrow> first_of vs
                  | None \<Rightarrow> Inr None)
               else Inr None))"

definition extract_token_from_url :: "urllib \<Rightarrow> string \<Rightarrow> string option \<times> msg list" where
  "extract_token_from_url L url =
     (case extract_token_body L url of
        Inl e \<Rightarrow> (None, [Error_extracting_token e])
      | Inr r \<Rightarrow> (r, []))"

text \<open>
  The function is called on \<^verbatim>\<open>payload.url\<close> of a response, which need not be a string.
  The library parses every false value (\<^verbatim>\<open>None\<close>, 0, an empty list or dictionary) to empty
  components, so no token is found and nothing is printed; every other value that is not a
  string makes it raise \<^verbatim>\<open>AttributeError\<close>.
\<close>

definition extract_token_from_value :: "urllib \<Rightarrow> json \<Rightarrow> string option \<times> msg list" where
  "extract_token_from_value L v =
     (case v of
        JStr url \<Rightarrow> extract_token_from_url L url
      | _ \<Rightarrow> if truthy v then (None, [Error_extracting_token AttributeError]) else (None, []))"

section \<open>File details\<close>

text \<open>
  \<^verbatim>\<open>GameJoltArchiver.get_file_details\<close> builds a dictionary from the payload of the
  gameserver response. It has no \<^verbatim>\<open>try\<close>: an exception of a step leaves the function.
  \<open>set_item d k v\<close> is \<^verbatim>\<open>d[k] = v\<close>.
\<close>

definition set_item :: "dict \<Rightarrow> string \<Rightarrow> json \<Rightarrow> dict" where
  "set_item d k v = AList.update k v d"

text \<open>The platform list of a build record (a dictionary), in the order of the four tests.\<close>

definition platforms_of :: "dict \<Rightarrow> string list" where
  "platforms_of build =
     (if truthy (dict_get build ''os_windows'') then [''Windows''] else []) @
     (if truthy (dict_get build ''os_mac'') then [''Mac''] else []) @
     (if truthy (dict_get build ''os_linux'') then [''Linux''] else []) @
     (if truthy (dict_get build ''os_other'') then [''Other''] else [])"

definition details_url :: "json \<Rightarrow> dict \<Rightarrow> error + dict" where
  "details_url download_info result =
     bindE (py_in ''url'' download_info) (\<lambda>present.
       if present
       then bindE (py_getitem download_info ''url'') (\<lambda>u. Inr (set_item result ''download_url'' u))
       else Inr result)"

definition details_primary_file :: "json \<Rightarrow> dict \<Rightarrow> error + dict" where
  "details_primary_file download_info result =
     bindE (py_in ''build'' download_info) (\<lambda>has_build.
       if has_build then
         bindE (py_getitem download_info ''build'') (\<lambda>build.
         bindE (py_in ''primary_file'' build) (\<lambda>has_file.
           if has_file then
             bindE (py_getitem build ''primary_file'') (\<lambda>primary_file.
             bindE (py_get primary_file ''filename'') (\<lambda>fname.
             bindE (py_get primary_file ''filesize'') (\<lambda>fsize.
               Inr (set_item (set_item result ''filename'' fname) ''filesize'' fsize))))
           else Inr result))
       else Inr result)"

definition details_build_fields :: "dict \<Rightarrow> dict \<Rightarrow> dict" where
  "details_build_fields build result =
     (let r1 = set_item result ''build_id'' (dict_get build ''id'');
          r2 = set_item r1 ''type'' (dict_get build ''type'');
          r3 = set_item r2 ''added_on'' (dict_get build ''added_on'');
          r4 = set_item r3 ''updated_on'' (dict_get build ''updated_on'');
          r5 = set_item r4 ''platforms'' (JArr (map JStr (platforms_of build)));
          r6 = (if truthy (dict_get build ''embed_width'')
                then set_item r5 ''width'' (dict_get build ''embed_width'') else r5)
      in if truthy (dict_get build ''embed_height'')
         then set_item r6 ''height'' (dict_get build ''embed_height'') else r6)"

definition details_build :: "json \<Rightarrow> dict \<Rightarrow> error + dict" where
  "details_build download_info result =
     bindE (py_in ''build'' download_info) (\<lambda>has_build.
       if has_build then
         bindE (py_getitem download_info ''build'') (\<lambda>build.
           case build of
             JObj b \<Rightarrow> Inr (details_build_fields b result)
           | _ \<Rightarrow> Inl AttributeError)
       else Inr result)"

definition details_game :: "json \<Rightarrow> dict \<Rightarrow> error + dict" where
  "details_game download_info result =
     bindE (py_in ''game'' download_info) (\<lambda>has_game.
       if has_game then
         bindE (py_getitem download_info ''game'') (\<lambda>game.
         bindE (py_get game ''id'') (\<lambda>gid.
         bindE (py_get game ''title'') (\<lambda>title.
           Inr (set_item (set_item result ''game_id'' gid) ''title'' title))))
       else Inr result)"

definition details_java :: "json \<Rightarrow> dict \<Rightarrow> error + dict" where
  "details_java download_info result =
     bindE (py_get download_info ''javaArchive'') (\<lambda>java_archive.
       if truthy java_archive then
         bindE (py_get download_info ''javaCodebase'') (\<lambda>java_codebase.
         (let r1 = set_item (set_item result ''java_archive'' java_archive)
                     ''java_codebase'' java_codebase
          in bindE (py_in ''build'' download_info) (\<lambda>has_build.
               if has_build then
                 bindE (py_getitem download_info ''build'') (\<lambda>build.
                 bindE (py_get build ''java_class_name'') (\<lambda>cls.
                   if truthy cls then Inr (set_item r1 ''java_class_name'' cls) else Inr r1))
               else Inr r1)))
       else Inr result)"

definition get_file_details :: "json \<Rightarrow> error + dict" where
  "get_file_details download_info =
     bindE (details_url download_info []) (\<lambda>r1.
     bindE (details_primary_file download_info r1) (\<lambda>r2.
     bindE (details_build download_info r2) (\<lambda>r3.
     bindE (details_game download_info r3) (\<lambda>r4.
     details_java download_info r4))))"

section \<open>The world: file system, network, console\<close>

text \<open>
  A file holds the bytes of a download or an applet page. The page is a fixed template
  filled with five values (the title, and the applet element's \<^verbatim>\<open>archive\<close>, \<^verbatim>\<open>code\<close>,
  \<^verbatim>\<open>height\<close> and \<^verbatim>\<open>width\<close>); the model keeps the five values and leaves the template's
  text and the formatting of each value out.
\<close>

record applet_page =
  page_title :: json
  applet_archive :: json
  applet_code :: json
  applet_height :: json
  applet_width :: json

datatype content =
    Bytes string
  | Cheerpj_page applet_page

text \<open>
  A request is recorded by its endpoint and the value that fills the endpoint's template:
  the build identifier (with the game identifier of the referer header), the token, or the
  URL of the file. The session's headers are set by the calls made so far, so a server that
  answers by the history of requests covers them.
\<close>

datatype request =
    Post_get_download_url json int
  | Get_gameserver string
  | Get_file json

text \<open>
  A response: the status, the body as \<^verbatim>\<open>response.json()\<close> reads it (\<open>None\<close> when it is not
  JSON), the outcome of \<^verbatim>\<open>int(response.headers.get('content-length', 0))\<close>, the chunks of
  the streamed body, and whether the stream breaks after them. How a size is formatted
  for printing is not modelled.
\<close>

record response =
  status :: nat
  json_body :: "json option"
  content_length :: "error + int"
  chunks :: "string list"
  stream_breaks :: bool

datatype http_result = No_response | Response response

record world =
  files :: "(string \<times> content) list"
  dirs :: "string list"
  requests :: "request list"
  out :: "msg list"

text \<open>
  The collaborators outside the program: the URL library, the server (its answer to a
  request after a history of requests), \<^verbatim>\<open>os.path.abspath\<close> (which depends on the working
  directory), and the paths at which the operating system refuses to create a directory or
  to open a file for writing.
\<close>

record env =
  lib :: urllib
  respond :: "request list \<Rightarrow> request \<Rightarrow> http_result"
  abspath :: "string \<Rightarrow> string"
  refuses :: "string \<Rightarrow> bool"

definition print :: "msg \<Rightarrow> world \<Rightarrow> world" where
  "print m w = w\<lparr>out := out w @ [m]\<rparr>"

definition prints :: "msg list \<Rightarrow> world \<Rightarrow> world" where
  "prints ms w = w\<lparr>out := out w @ ms\<rparr>"

subsection \<open>Paths and files\<close>

text \<open>\<^verbatim>\<open>os.path.join\<close> of two components and \<^verbatim>\<open>os.path.dirname\<close>, as on POSIX.\<close>

definition path_join :: "string \<Rightarrow> string \<Rightarrow> string" where
  "path_join a b =
     (if startswith b ''/'' then b
      else if a = [] \<or> endswith a ''/'' then a @ b
      else a @ ''/'' @ b)"

definition dirname :: "string \<Rightarrow> string" where
  "dirname p =
     (let head = take (length p - length (takeWhile (\<lambda>c. c \<noteq> CHR ''/'') (rev p))) p
      in if head \<noteq> [] \<and> \<not> list_all (\<lambda>c. c = CHR ''/'') head
         then rev (dropWhile (\<lambda>c. c = CHR ''/'') (rev head))
         else head)"

text \<open>
  \<^verbatim>\<open>os.path.exists\<close>, \<^verbatim>\<open>os.makedirs(p, exist_ok=True)\<close> and opening a file for writing,
  which creates or truncates it. Paths are compared as strings. Writing to an open file
  does not fail in the model.
\<close>

definition path_exists :: "world \<Rightarrow> string \<Rightarrow> bool" where
  "path_exists w p = (p \<in> fst ` set (files w) \<or> p \<in> set (dirs w))"

definition makedirs :: "env \<Rightarrow> world \<Rightarrow> string \<Rightarrow> error + world" where
  "makedirs E w p =
     (if p \<in> set (dirs w) then Inr w
      else if p = [] \<or> p \<in> fst ` set (files w) \<or> refuses E p then Inl OSError
      else Inr (w\<lparr>dirs := dirs w @ [p]\<rparr>))"

definition open_write :: "env \<Rightarrow> world \<Rightarrow> string \<Rightarrow> content \<Rightarrow> error + world" where
  "open_write E w p c =
     (if p = [] \<or> p \<in> set (dirs w) \<or> refuses E p then Inl OSError
      else Inr (w\<lparr>files := AList.update p c (files w)\<rparr>))"

subsection \<open>Requests\<close>

text \<open>
  Sending a request records it and yields the server's answer; \<^verbatim>\<open>raise_for_status\<close>
  raises on a status from 400 to 599.
\<close>

definition send :: "env \<Rightarrow> world \<Rightarrow> request \<Rightarrow> world \<times> http_result" where
  "send E w rq = (w\<lparr>requests := requests w @ [rq]\<rparr>, respond E (requests w) rq)"

definition raise_for_status :: "response \<Rightarrow> error + response" where
  "raise_for_status r = (if 400 \<le> status r \<and> status r < 600 then Inl HTTPError else Inr r)"

text \<open>\<^verbatim>\<open>send\<close>, \<^verbatim>\<open>raise_for_status\<close> and \<^verbatim>\<open>response.json()\<close> in a row.\<close>

definition fetch_json :: "env \<Rightarrow> world \<Rightarrow> request \<Rightarrow> world \<times> (error + json)" where
  "fetch_json E w rq =
     (case send E w rq of
        (w', No_response) \<Rightarrow> (w', Inl ConnectionError)
      | (w', Response r) \<Rightarrow>
          (w', bindE (raise_for_status r) (\<lambda>r'.
                 case json_body r' of None \<Rightarrow> Inl JSONDecodeError | Some j \<Rightarrow> Inr j)))"

section \<open>The archiver's file operations\<close>

record archiver =
  download_dir :: string

text \<open>
  The second component of a \<^verbatim>\<open>Tuple[bool, str]\<close> result: a path, the fixed message about
  missing fields, or the message of a caught exception.
\<close>

datatype result_text = Path string | Missing_class_or_filename | Error_text error

type_synonym outcome = "bool \<times> result_text"

subsection \<open>The game directory\<close>

text \<open>The two assignments to \<^verbatim>\<open>safe_title\<close> in \<^verbatim>\<open>create_game_directory\<close>.\<close>

definition safe_title :: "string \<Rightarrow> string" where
  "safe_title game_title =
     replace CHR '' '' CHR ''_''
       (strip_chars chr_isspace
          (map (\<lambda>c. if chr_isalnum c \<or> c \<in> set '' -_'' then c else CHR ''_'') game_title))"

definition create_game_directory :: "env \<Rightarrow> archiver \<Rightarrow> world \<Rightarrow> string \<Rightarrow> error + world \<times> string" where
  "create_game_directory E self w game_title =
     (let game_dir = path_join (download_dir self) (safe_title game_title)
      in bindE (makedirs E w game_dir) (\<lambda>w'. Inr (w', game_dir)))"

subsection \<open>File transfer\<close>

text \<open>
  An optional string in a condition: \<^verbatim>\<open>None\<close> and the empty string are false;
  \<open>true_string\<close> is the string when it is true.
\<close>

definition true_string :: "string option \<Rightarrow> string option" where
  "true_string s = (case s of None \<Rightarrow> None | Some p \<Rightarrow> if p = [] then None else Some p)"

definition final_output_path ::
  "env \<Rightarrow> archiver \<Rightarrow> world \<Rightarrow> string \<Rightarrow> string \<Rightarrow> string option \<Rightarrow> error + world \<times> string" where
  "final_output_path E self w filename game_title output_path =
     (case true_string output_path of
        Some p \<Rightarrow> bindE (makedirs E w (dirname (abspath E p))) (\<lambda>w'. Inr (w', p))
      | None \<Rightarrow>
          bindE (create_game_directory E self w game_title)
            (\<lambda>(w', game_dir). Inr (w', path_join game_dir filename)))"

text \<open>The progress lines of the chunks: one for each chunk that is not empty, when the total is positive.\<close>

fun show_progress :: "int \<Rightarrow> int \<Rightarrow> string list \<Rightarrow> msg list" where
  "show_progress total_size downloaded [] = []"
| "show_progress total_size downloaded (c # cs) =
     (if c = [] then show_progress total_size downloaded cs
      else (if 0 < total_size then [Progress (downloaded + int (length c)) total_size] else []) @
           show_progress total_size (downloaded + int (length c)) cs)"

text \<open>
  The \<^verbatim>\<open>try\<close> block of \<^verbatim>\<open>download_file\<close>: the world after it, and the returned path or the
  exception that left the block. The file is opened after the status and the content
  length were read; it holds the chunks received also when the stream breaks.
\<close>

definition download_file_body ::
  "env \<Rightarrow> archiver \<Rightarrow> world \<Rightarrow> json \<Rightarrow> string \<Rightarrow> string \<Rightarrow> string option \<Rightarrow> world \<times> (error + string)" where
  "download_file_body E self w url filename game_title output_path =
     (case final_output_path E self w filename game_title output_path of
        Inl e \<Rightarrow> (w, Inl e)
      | Inr (w1, final) \<Rightarrow>
          if path_exists w1 final then (print (File_already_exists final) w1, Inr final)
          else
            (case send E w1 (Get_file url) of
               (w2, No_response) \<Rightarrow> (w2, Inl ConnectionError)
             | (w2, Response r) \<Rightarrow>
                 (case bindE (raise_for_status r) content_length of
                    Inl e \<Rightarrow> (w2, Inl e)
                  | Inr total_size \<Rightarrow>
                      (let w3 = print (Downloading filename total_size) w2 in
                       case open_write E w3 final (Bytes (concat (chunks r))) of
                         Inl e \<Rightarrow> (w3, Inl e)
                       | Inr w4 \<Rightarrow>
                           (let w5 = prints (show_progress total_size 0 (chunks r)) w4 in
                            if stream_breaks r then (w5, Inl ConnectionError)
                            else (print (Downloaded_to final) w5, Inr final))))))"

definition download_file ::
  "env \<Rightarrow> archiver \<Rightarrow> world \<Rightarrow> json \<Rightarrow> string \<Rightarrow> string \<Rightarrow> string option \<Rightarrow> world \<times> outcome" where
  "download_file E self w url filename game_title output_path =
     (case download_file_body E self w url filename game_title output_path of
        (w', Inl e) \<Rightarrow> (print (Error_downloading_file e) w', (False, Error_text e))
      | (w', Inr final) \<Rightarrow> (w', (True, Path final)))"

subsection \<open>The applet page\<close>

text \<open>
  \<^verbatim>\<open>GameJoltArchiver.create_cheerpj_html\<close>: the test of the two keys, the defaults, and the
  one file written.
\<close>

definition create_cheerpj_html :: "env \<Rightarrow> world \<Rightarrow> dict \<Rightarrow> string \<Rightarrow> world \<times> outcome" where
  "create_cheerpj_html E w file_details output_dir =
     (if \<not> has_key file_details ''java_class_name'' \<or> \<not> has_key file_details ''filename''
      then (w, (False, Missing_class_or_filename))
      else
        (let jar_filename = dict_get file_details ''filename'';
             java_class = dict_get file_details ''java_class_name'';
             game_title = dict_get_default file_details ''title'' (JStr ''Game'');
             width = dict_get_default file_details ''width'' (JNum 640);
             height = dict_get_default file_details ''height'' (JNum 480);
             html_filename = path_join output_dir ''cheerpj.html''
         in case open_write E w html_filename
                   (Cheerpj_page \<lparr>page_title = game_title, applet_archive = jar_filename,
                      applet_code = java_class, applet_height = height, applet_width = width\<rparr>) of
              Inl e \<Rightarrow> (print (Error_creating_CheerpJ_HTML_file e) w, (False, Error_text e))
            | Inr w' \<Rightarrow> (print (Created_CheerpJ_HTML_file html_filename) w', (True, Path html_filename))))"

section \<open>Build resolution\<close>

text \<open>
  The condition \<^verbatim>\<open>"payload" in initial_data and "url" in initial_data["payload"]\<close> and the
  value of \<^verbatim>\<open>initial_data["payload"]["url"]\<close> when it holds.
\<close>

definition payload_url :: "json \<Rightarrow> error + json option" where
  "payload_url initial_data =
     bindE (py_in ''payload'' initial_data) (\<lambda>has_payload.
       if has_payload then
         bindE (py_getitem initial_data ''payload'') (\<lambda>payload.
         bindE (py_in ''url'' payload) (\<lambda>has_url.
           if has_url then bindE (py_getitem payload ''url'') (\<lambda>u. Inr (Some u))
           else Inr None))
       else Inr None)"

text \<open>\<^verbatim>\<open>gameserver_data.get("payload", {})\<close>.\<close>

definition gameserver_payload :: "json \<Rightarrow> error + json" where
  "gameserver_payload gameserver_data =
     (case gameserver_data of
        JObj d \<Rightarrow> Inr (dict_get_default d ''payload'' (JObj []))
      | _ \<Rightarrow> Inl AttributeError)"

text \<open>
  The \<^verbatim>\<open>try\<close> block of \<^verbatim>\<open>GameJoltArchiver.get_build_download_url\<close>: the two requests with
  the token extraction between them. \<open>JNull\<close> is the result \<^verbatim>\<open>None\<close>.
\<close>

definition get_build_download_url_body ::
  "env \<Rightarrow> world \<Rightarrow> json \<Rightarrow> int \<Rightarrow> world \<times> (error + json)" where
  "get_build_download_url_body E w build_id game_id =
     (case fetch_json E w (Post_get_download_url build_id game_id) of
        (w1, Inl e) \<Rightarrow> (w1, Inl e)
      | (w1, Inr initial_data) \<Rightarrow>
          (case payload_url initial_data of
             Inl e \<Rightarrow> (w1, Inl e)
           | Inr None \<Rightarrow> (w1, Inr JNull)
           | Inr (Some initial_url) \<Rightarrow>
               (case extract_token_from_value (lib E) initial_url of
                  (token, ms) \<Rightarrow>
                    (case true_string token of
                       Some t \<Rightarrow>
                         (case fetch_json E (prints ms w1) (Get_gameserver t) of
                            (w3, Inl e) \<Rightarrow> (w3, Inl e)
                          | (w3, Inr gameserver_data) \<Rightarrow> (w3, gameserver_payload gameserver_data))
                     | None \<Rightarrow>
                         (print (No_token_found_in_URL initial_url) (prints ms w1), Inr JNull)))))"

definition get_build_download_url :: "env \<Rightarrow> world \<Rightarrow> json \<Rightarrow> int \<Rightarrow> world \<times> json" where
  "get_build_download_url E w build_id game_id =
     (case get_build_download_url_body E w build_id game_id of
        (w', Inl e) \<Rightarrow> (print (Error_fetching_build build_id e) w', JNull)
      | (w', Inr download_info) \<Rightarrow> (w', download_info))"

section \<open>The orchestrator\<close>

text \<open>
  The statement of \<^verbatim>\<open>process_game\<close> that processes the builds, from the game information
  already fetched and the title read from it (a string). Nothing in it catches an
  exception: one that leaves a called function ends the run, which is the result \<open>Inl\<close>.
\<close>

record options =
  output_path :: "string option"
  print_java_class :: bool
  download :: bool
  create_cheerpj :: bool

record loop_state =
  the_world :: world
  jar_files :: "(json \<times> string) list"
  java_class_info :: "java_info list"

definition make_java_info :: "dict \<Rightarrow> string \<Rightarrow> java_info" where
  "make_java_info file_details game_title =
     \<lparr>ji_filename = dict_get_default file_details ''filename'' (JStr []),
      ji_java_class = dict_get_default file_details ''java_class_name'' (JStr []),
      ji_java_archive = dict_get_default file_details ''java_archive'' (JStr []),
      ji_java_codebase = dict_get_default file_details ''java_codebase'' (JStr []),
      ji_title = game_title,
      ji_width = dict_get_default file_details ''width'' (JNum 640),
      ji_height = dict_get_default file_details ''height'' (JNum 480)\<rparr>"

text \<open>
  The condition \<^verbatim>\<open>download and filename.lower().endswith('.jar')\<close>: the name in lower case
  when the condition holds. Only a string has the method \<^verbatim>\<open>lower\<close>, and the method is not
  called when downloads are off.
\<close>

definition jar_file_detected :: "bool \<Rightarrow> json \<Rightarrow> error + string option" where
  "jar_file_detected dl filename =
     (if \<not> dl then Inr None
      else (case filename of
              JStr s \<Rightarrow> Inr (if endswith (lower s) ''.jar'' then Some s else None)
            | _ \<Rightarrow> Inl AttributeError))"

text \<open>
  The unused assignment to \<^verbatim>\<open>output_dir\<close>, whose second alternative creates the game
  directory.
\<close>

definition output_dir_step :: "env \<Rightarrow> archiver \<Rightarrow> options \<Rightarrow> world \<Rightarrow> string \<Rightarrow> error + world" where
  "output_dir_step E self opts w game_title =
     (case true_string (output_path opts) of
        Some p \<Rightarrow> Inr w
      | None \<Rightarrow> bindE (create_game_directory E self w game_title) (\<lambda>(w', game_dir). Inr w'))"

text \<open>
  The call of the applet emitter after a transfer, when it is made: the dictionary and the
  directory it is called with.
\<close>

definition emitter_call :: "options \<Rightarrow> outcome \<Rightarrow> dict \<Rightarrow> string \<Rightarrow> (dict \<times> string) option" where
  "emitter_call opts res file_details game_title =
     (case res of
        (True, Path jar_path) \<Rightarrow>
          if create_cheerpj opts \<and> has_key file_details ''java_class_name''
          then Some (set_item file_details ''title'' (JStr game_title), dirname jar_path)
          else None
      | _ \<Rightarrow> None)"

definition transfer_jar ::
  "env \<Rightarrow> archiver \<Rightarrow> options \<Rightarrow> string \<Rightarrow> dict \<Rightarrow> string \<Rightarrow> loop_state \<Rightarrow> error + loop_state" where
  "transfer_jar E self opts game_title file_details filename st =
     (let st1 = st\<lparr>jar_files := jar_files st @ [(dict_get file_details ''download_url'', filename)]\<rparr>
      in bindE (output_dir_step E self opts (the_world st1) game_title) (\<lambda>w2.
           case download_file E self w2 (dict_get file_details ''download_url'') filename
                  game_title (output_path opts) of
             (w3, res) \<Rightarrow>
               (case emitter_call opts res file_details game_title of
                  Some (details, dir) \<Rightarrow>
                    Inr (st1\<lparr>the_world := fst (create_cheerpj_html E w3 details dir)\<rparr>)
                | None \<Rightarrow> Inr (st1\<lparr>the_world := w3\<rparr>))))"

definition process_build ::
  "env \<Rightarrow> archiver \<Rightarrow> options \<Rightarrow> int \<Rightarrow> string \<Rightarrow> loop_state \<Rightarrow> json \<Rightarrow> error + loop_state" where
  "process_build E self opts game_id game_title st build =
     bindE (py_getitem build ''id'') (\<lambda>build_id.
       case get_build_download_url E (the_world st) build_id game_id of
         (w1, download_info) \<Rightarrow>
           if truthy download_info then
             bindE (get_file_details download_info) (\<lambda>file_details.
               (let st1 = st\<lparr>the_world := w1,
                              java_class_info :=
                                (if has_key file_details ''java_class_name'' \<and>
                                    (print_java_class opts \<or> create_cheerpj opts)
                                 then java_class_info st @ [make_java_info file_details game_title]
                                 else java_class_info st)\<rparr>;
                    filename = dict_get_default file_details ''filename'' (JStr [])
                in bindE (jar_file_detected (download opts) filename) (\<lambda>jar.
                     case jar of
                       Some name \<Rightarrow> transfer_jar E self opts game_title file_details name st1
                     | None \<Rightarrow> Inr st1)))
           else Inr (st\<lparr>the_world := w1\<rparr>))"

fun for_builds ::
  "env \<Rightarrow> archiver \<Rightarrow> options \<Rightarrow> int \<Rightarrow> string \<Rightarrow> json list \<Rightarrow> loop_state \<Rightarrow> error + loop_state" where
  "for_builds E self opts game_id game_title [] st = Inr st"
| "for_builds E self opts game_id game_title (build # builds) st =
     bindE (process_build E self opts game_id game_title st build)
       (for_builds E self opts game_id game_title builds)"

text \<open>The two reports after the loop.\<close>

definition report :: "options \<Rightarrow> loop_state \<Rightarrow> loop_state" where
  "report opts st =
     (let w1 = (if print_java_class opts \<and> java_class_info st \<noteq> []
                then print (Java_Class_Information (java_class_info st)) (the_world st)
                else the_world st);
          w2 = (if jar_files st = [] \<and> download opts then print No_JAR_files_found w1 else w1)
      in st\<lparr>the_world := w2\<rparr>)"

definition process_builds ::
  "env \<Rightarrow> archiver \<Rightarrow> options \<Rightarrow> world \<Rightarrow> int \<Rightarrow> string \<Rightarrow> dict \<Rightarrow> error + loop_state" where
  "process_builds E self opts w game_id game_title game_info =
     (let builds = dict_get game_info ''builds'';
          st0 = \<lparr>the_world = w, jar_files = [], java_class_info = []\<rparr>
      in if truthy builds then
           (case builds of
              JArr bs \<Rightarrow>
                bindE (for_builds E self opts game_id game_title bs st0) (\<lambda>st. Inr (report opts st))
            | _ \<Rightarrow> Inl TypeError)
         else Inr (st0\<lparr>the_world := print No_builds_found w\<rparr>))"

section \<open>The specification's notions\<close>

text \<open>
  The shape \<^verbatim>\<open>/games/<slug>/<digits>\<close> as the specification states it: the path, with its
  outer slashes removed and split at slashes, has at least three segments, the first is
  the literal \<^verbatim>\<open>games\<close>, and the last consists of decimal digits.
\<close>

definition path_segments :: "string \<Rightarrow> string list" where
  "path_segments p = split CHR ''/'' (strip_chars (\<lambda>c. c = CHR ''/'') p)"

definition games_path_shape :: "string \<Rightarrow> bool" where
  "games_path_shape p =
     (let segs = path_segments p
      in 3 \<le> length segs \<and> hd segs = ''games'' \<and> last segs \<noteq> [] \<and>
         list_all chr_isdecimal (last segs))"

text \<open>
  Token extraction as the specification states it: the first value of the query parameter
  \<^verbatim>\<open>token\<close> when the parameter is present, \<^verbatim>\<open>None\<close> otherwise. \<open>extract_token_query_only\<close>
  is \<open>extract_token_from_url\<close> without its second branch, the one for a direct token URL.
\<close>

definition token_parameter :: "urllib \<Rightarrow> string \<Rightarrow> string option" where
  "token_parameter L url =
     (case urlparse L url of
        Inl e \<Rightarrow> None
      | Inr p \<Rightarrow>
          (case map_of (parse_qs L (query p)) ''token'' of
             None \<Rightarrow> None
           | Some vs \<Rightarrow> (case vs of [] \<Rightarrow> None | v # _ \<Rightarrow> Some v)))"

definition extract_token_query_only :: "urllib \<Rightarrow> string \<Rightarrow> string option \<times> msg list" where
  "extract_token_query_only L url =
     (case (case urlparse L url of
              Inl e \<Rightarrow> Inl e
            | Inr parsed_url \<Rightarrow>
                (case map_of (parse_qs L (query parsed_url)) ''token'' of
                   Some vs \<Rightarrow> first_of vs
                 | None \<Rightarrow> Inr None)) of
        Inl e \<Rightarrow> (None, [Error_extracting_token e])
      | Inr r \<Rightarrow> (r, []))"





section \<open>Sample data\<close>

text \<open>
  A world with no files and no requests yet, and an environment whose server never
  answers, whose operating system refuses nothing, and whose working directory is
  \<^verbatim>\<open>/home/user\<close>.
\<close>

definition empty_world :: world where
  "empty_world = \<lparr>files = [], dirs = [], requests = [], out = []\<rparr>"

text \<open>Worlds in which the output directory of the examples is there.\<close>

definition out_world :: world where
  "out_world = \<lparr>files = [], dirs = [''out''], requests = [], out = []\<rparr>"


definition offline_env :: env where
  "offline_env =
     \<lparr>lib = plain_urllib,
      respond = (\<lambda>history rq. No_response),
      abspath = (\<lambda>p. if startswith p ''/'' then p else ''/home/user/'' @ p),
      refuses = (\<lambda>p. False)\<rparr>"

definition default_archiver :: archiver where
  "default_archiver = \<lparr>download_dir = ''downloads''\<rparr>"

text \<open>
  The payload of a gameserver response for a build that runs on Windows and Linux, its
  flags listed in another order than the code tests them.
\<close>

definition sample_build :: dict where
  "sample_build = [(''os_linux'', JBool True), (''id'', JNum 999), (''os_mac'', JBool False),
     (''os_windows'', JBool True)]"

definition sample_info :: json where
  "sample_info = JObj [(''url'', JStr ''https://cdn.example/game.jar''), (''build'', JObj sample_build)]"


text \<open>
  The payload of a gameserver response for an applet build, and file details whose
  filename and class name are present and empty.
\<close>

definition applet_info :: json where
  "applet_info =
     JObj [(''url'', JStr ''https://cdn.example/game.jar''),
           (''build'', JObj [(''id'', JNum 999),
                            (''primary_file'', JObj [(''filename'', JStr ''Game.JAR''),
                                                    (''filesize'', JNum 2048)]),
                            (''java_class_name'', JStr ''Main'')]),
           (''javaArchive'', JBool True)]"

definition applet_details :: dict where
  "applet_details =
     [(''download_url'', JStr ''https://cdn.example/game.jar''), (''filename'', JStr ''Game.JAR''),
      (''filesize'', JNum 2048), (''build_id'', JNum 999), (''type'', JNull),
      (''added_on'', JNull), (''updated_on'', JNull), (''platforms'', JArr []),
      (''java_archive'', JBool True), (''java_codebase'', JNull),
      (''java_class_name'', JStr ''Main'')]"

definition empty_details :: dict where
  "empty_details = [(''java_class_name'', JStr []), (''filename'', JStr [])]"

definition all_options :: options where
  "all_options = \<lparr>output_path = None, print_java_class = True, download = True,
     create_cheerpj = True\<rparr>"


text \<open>
  A game server. The download URL of build \<open>n\<close> (1, 2 or 3) carries the token \<open>tn\<close>; the
  gameserver answers token \<open>t1\<close> with the applet build above, \<open>t2\<close> with a build whose file
  is a zip archive, and \<open>t3\<close> with a build whose \<^verbatim>\<open>primary_file\<close> is null; every file
  request is answered with five bytes.
\<close>

definition json_response :: "json \<Rightarrow> http_result" where
  "json_response j =
     Response \<lparr>status = 200, json_body = Some j, content_length = Inr 0, chunks = [],
               stream_breaks = False\<rparr>"

definition not_found :: http_result where
  "not_found =
     Response \<lparr>status = 404, json_body = None, content_length = Inr 0, chunks = [],
               stream_breaks = False\<rparr>"

definition download_url_response :: "string \<Rightarrow> http_result" where
  "download_url_response token =
     json_response (JObj [(''payload'', JObj [(''url'', JStr (''https://gamejolt.net/?token='' @ token))])])"

definition zip_info :: json where
  "zip_info =
     JObj [(''url'', JStr ''https://cdn.example/game.zip''),
           (''build'', JObj [(''id'', JNum 2),
                            (''primary_file'', JObj [(''filename'', JStr ''game.zip''),
                                                    (''filesize'', JNum 4096)]),
                            (''os_windows'', JBool True)])]"

definition null_file_info :: json where
  "null_file_info =
     JObj [(''url'', JStr ''https://cdn.example/game.jar''),
           (''build'', JObj [(''id'', JNum 3), (''primary_file'', JNull)])]"

definition game_server :: "request list \<Rightarrow> request \<Rightarrow> http_result" where
  "game_server history rq =
     (case rq of
        Post_get_download_url build_id game_id \<Rightarrow>
          if build_id = JNum 1 then download_url_response ''t1''
          else if build_id = JNum 2 then download_url_response ''t2''
          else if build_id = JNum 3 then download_url_response ''t3''
          else not_found
      | Get_gameserver token \<Rightarrow>
          if token = ''t1'' then json_response (JObj [(''payload'', applet_info)])
          else if token = ''t2'' then json_response (JObj [(''payload'', zip_info)])
          else if token = ''t3'' then json_response (JObj [(''payload'', null_file_info)])
          else not_found
      | Get_file url \<Rightarrow>
          Response \<lparr>status = 200, json_body = None, content_length = Inr 5,
                    chunks = [''he'', ''llo''], stream_breaks = False\<rparr>)"

definition online_env :: env where
  "online_env = offline_env\<lparr>respond := game_server\<rparr>"



definition two_build_game :: dict where
  "two_build_game = [(''builds'', JArr [JObj [(''id'', JNum 3)], JObj [(''id'', JNum 1)]])]"

section \<open>Dictionaries and sequencing: lemmas\<close>

lemma map_of_set_item: "map_of (set_item d k v) k' = (if k' = k then Some v else map_of d k')"
  by (simp add: set_item_def update_conv')

lemma has_key_set_item: "has_key (set_item d k v) k' = (k' = k \<or> has_key d k')"
  by (simp add: has_key_def map_of_set_item)

lemma dict_get_set_item: "dict_get (set_item d k v) k' = (if k' = k then v else dict_get d k')"
  by (simp add: dict_get_def map_of_set_item)

lemma bindE_Inr: "bindE m f = Inr y \<longleftrightarrow> (\<exists>x. m = Inr x \<and> f x = Inr y)"
  by (cases m) (simp_all add: bindE_def)

section \<open>Identifier resolution: theorems\<close>





lemma game_id_match_at_complete:
  assumes "s = ''/games/'' @ slug @ CHR ''/'' # d # rest" "slug \<noteq> []" "CHR ''/'' \<notin> set slug"
    "chr_isdecimal d"
  shows "game_id_match_at s \<noteq> None"
proof -
  have d7: "drop 7 s = slug @ CHR ''/'' # d # rest" using assms(1) by simp
  have tw: "takeWhile (\<lambda>c. c \<noteq> CHR ''/'') (slug @ CHR ''/'' # d # rest) = slug"
    using assms(3) by (subst takeWhile_append2) auto
  have dw: "dropWhile (\<lambda>c. c \<noteq> CHR ''/'') (slug @ CHR ''/'' # d # rest) = CHR ''/'' # d # rest"
    using assms(3) by (subst dropWhile_append2) auto
  have "prefix ''/games/'' s" using assms(1) by (simp add: prefix_def)
  then show ?thesis using d7 tw dw assms(2,4)
    by (simp add: game_id_match_at_def startswith_def Let_def)
qed


lemma re_search_game_id_complete:
  "s = pre @ ''/games/'' @ slug @ CHR ''/'' # d # rest \<Longrightarrow> slug \<noteq> [] \<Longrightarrow>
     CHR ''/'' \<notin> set slug \<Longrightarrow> chr_isdecimal d \<Longrightarrow> re_search_game_id s \<noteq> None"
proof (induction pre arbitrary: s)
  case Nil
  then have "game_id_match_at s \<noteq> None" using game_id_match_at_complete [of s slug d rest] by simp
  then show ?case by (cases s) (auto split: option.splits)
next
  case (Cons a pre)
  then have "re_search_game_id (pre @ ''/games/'' @ slug @ CHR ''/'' # d # rest) \<noteq> None" by blast
  then show ?case using Cons.prems(1) by (auto split: option.splits)
qed




text \<open>
  C10. There is a URL whose host is neither \<^verbatim>\<open>gamejolt.com\<close> nor a subdomain of it (the
  host does not end with \<^verbatim>\<open>.gamejolt.com\<close>) but ends with the characters
  \<^verbatim>\<open>gamejolt.com\<close>, with a path of the shape \<^verbatim>\<open>/games/<slug>/<digits>\<close>, that identifier
  resolution resolves to its number: the host test is a test of the suffix.
\<close>

theorem suffix_host_resolved:
  "\<exists>url p. urlparse plain_urllib url = Inr p \<and> netloc p = ''evilgamejolt.com'' \<and>
      netloc p \<noteq> ''gamejolt.com'' \<and> \<not> endswith (netloc p) ''.gamejolt.com'' \<and>
      endswith (netloc p) ''gamejolt.com'' \<and> games_path_shape (path p) \<and>
      fst (extract_game_id_from_url plain_urllib url) = Some 12345"
proof -
  let ?url = "''https://evilgamejolt.com/games/some-game/12345''"
  let ?p = "\<lparr>scheme = ''https'', netloc = ''evilgamejolt.com'', path = ''/games/some-game/12345'',
          params = [], query = [], fragment = []\<rparr>"
  have "urlparse plain_urllib ?url = Inr ?p" by code_simp
  moreover have "netloc ?p = ''evilgamejolt.com''" by simp
  moreover have "netloc ?p \<noteq> ''gamejolt.com''" by simp
  moreover have "\<not> endswith (netloc ?p) ''.gamejolt.com''" by code_simp
  moreover have "endswith (netloc ?p) ''gamejolt.com''" by code_simp
  moreover have "games_path_shape (path ?p)" by code_simp
  moreover have "fst (extract_game_id_from_url plain_urllib ?url) = Some 12345" by code_simp
  ultimately show ?thesis by blast
qed

section \<open>Token extraction: theorems\<close>

text \<open>
  C6. For every URL, token extraction is the same function with and without its second
  branch (the one for a direct token URL), messages included, and its result is the first
  value of the query parameter \<^verbatim>\<open>token\<close> when the parameter is present and \<^verbatim>\<open>None\<close>
  otherwise: the second branch never changes what the first decided.
\<close>

theorem token_extraction_branches_agree:
  "extract_token_from_url L url = extract_token_query_only L url \<and>
   fst (extract_token_from_url L url) = token_parameter L url"
  by (auto simp: extract_token_from_url_def extract_token_body_def extract_token_query_only_def
      token_parameter_def first_of_def Let_def split: sum.splits option.splits list.splits)

theorem token_extraction_branches_agree_witness:
  "fst (extract_token_from_url plain_urllib ''https://gamejolt.net?x=1&token=XYZ&token=2'') =
     Some ''XYZ'' \<and>
   extract_token_query_only plain_urllib ''https://gamejolt.net?x=1&token=XYZ&token=2'' =
     (Some ''XYZ'', [])"
proof -
  have "token_parameter plain_urllib ''https://gamejolt.net?x=1&token=XYZ&token=2'' = Some ''XYZ''"
    by code_simp
  moreover have "extract_token_from_url plain_urllib ''https://gamejolt.net?x=1&token=XYZ&token=2'' =
      (Some ''XYZ'', [])"
    by code_simp
  ultimately show ?thesis
    using token_extraction_branches_agree
      [of plain_urllib "''https://gamejolt.net?x=1&token=XYZ&token=2''"]
    by simp
qed

section \<open>Title sanitization: theorems\<close>











section \<open>File details: theorems\<close>

lemma details_game_keeps:
  "details_game d r = Inr r' \<Longrightarrow> k \<noteq> ''game_id'' \<Longrightarrow> k \<noteq> ''title'' \<Longrightarrow>
     map_of r' k = map_of r k"
  by (auto simp: details_game_def bindE_def map_of_set_item split: if_splits sum.splits)

lemma details_java_keeps:
  "details_java d r = Inr r' \<Longrightarrow> k \<noteq> ''java_archive'' \<Longrightarrow> k \<noteq> ''java_codebase'' \<Longrightarrow>
     k \<noteq> ''java_class_name'' \<Longrightarrow> map_of r' k = map_of r k"
  by (auto simp: details_java_def bindE_def map_of_set_item Let_def split: if_splits sum.splits)

lemma details_build_fields_platforms:
  "map_of (details_build_fields b r) ''platforms'' = Some (JArr (map JStr (platforms_of b)))"
  by (simp add: details_build_fields_def Let_def map_of_set_item)

lemma details_build_dict:
  "py_getitem d ''build'' = Inr (JObj b) \<Longrightarrow> details_build d r = Inr (details_build_fields b r)"
  by (cases d) (auto simp: details_build_def bindE_def has_key_def split: option.splits)

lemma platforms_of_distinct: "distinct (platforms_of b)"
  by (simp add: platforms_of_def)

lemma platforms_of_cong: "map_of b' = map_of b \<Longrightarrow> platforms_of b' = platforms_of b"
  by (simp add: platforms_of_def dict_get_def)

lemma platforms_of_mem:
  "n \<in> set (platforms_of b) \<longleftrightarrow>
     (n = ''Windows'' \<and> truthy (dict_get b ''os_windows'')) \<or>
     (n = ''Mac'' \<and> truthy (dict_get b ''os_mac'')) \<or>
     (n = ''Linux'' \<and> truthy (dict_get b ''os_linux'')) \<or>
     (n = ''Other'' \<and> truthy (dict_get b ''os_other''))"
  by (simp add: platforms_of_def)

text \<open>
  C8. For a payload whose \<^verbatim>\<open>build\<close> is a dictionary, the file details carry under
  \<^verbatim>\<open>platforms\<close> a list without repetitions that contains Windows, Mac, Linux and Other
  exactly for those of the four flags \<^verbatim>\<open>os_windows\<close>, \<^verbatim>\<open>os_mac\<close>, \<^verbatim>\<open>os_linux\<close>,
  \<^verbatim>\<open>os_other\<close> that are true, and the list is the same for every ordering of the build's
  fields (for every build record with the same value at every key).
\<close>

theorem platforms_inclusive_order_independent:
  assumes "py_getitem download_info ''build'' = Inr (JObj build)"
    and "get_file_details download_info = Inr result"
  shows "map_of result ''platforms'' = Some (JArr (map JStr (platforms_of build))) \<and>
         (\<forall>n. n \<in> set (platforms_of build) \<longleftrightarrow>
            (n = ''Windows'' \<and> truthy (dict_get build ''os_windows'')) \<or>
            (n = ''Mac'' \<and> truthy (dict_get build ''os_mac'')) \<or>
            (n = ''Linux'' \<and> truthy (dict_get build ''os_linux'')) \<or>
            (n = ''Other'' \<and> truthy (dict_get build ''os_other''))) \<and>
         distinct (platforms_of build) \<and>
         (\<forall>build'. map_of build' = map_of build \<longrightarrow> platforms_of build' = platforms_of build)"
proof -
  from assms(2) obtain r2 r3 r4 where
    r: "details_build download_info r2 = Inr r3" "details_game download_info r3 = Inr r4"
    "details_java download_info r4 = Inr result"
    unfolding get_file_details_def bindE_Inr by blast
  have "details_build download_info r2 = Inr (details_build_fields build r2)"
    using details_build_dict [OF assms(1)] .
  with r(1) have r3: "r3 = details_build_fields build r2" by simp
  have "map_of result ''platforms'' = map_of r4 ''platforms''"
    using details_java_keeps [OF r(3), of "''platforms''"] by simp
  also have "\<dots> = map_of r3 ''platforms''"
    using details_game_keeps [OF r(2), of "''platforms''"] by simp
  also have "\<dots> = Some (JArr (map JStr (platforms_of build)))"
    unfolding r3 by (rule details_build_fields_platforms)
  finally have 1: "map_of result ''platforms'' = Some (JArr (map JStr (platforms_of build)))" .
  have 2: "\<forall>n. n \<in> set (platforms_of build) \<longleftrightarrow>
            (n = ''Windows'' \<and> truthy (dict_get build ''os_windows'')) \<or>
            (n = ''Mac'' \<and> truthy (dict_get build ''os_mac'')) \<or>
            (n = ''Linux'' \<and> truthy (dict_get build ''os_linux'')) \<or>
            (n = ''Other'' \<and> truthy (dict_get build ''os_other''))"
    by (rule allI) (rule platforms_of_mem)
  have 4: "\<forall>build'. map_of build' = map_of build \<longrightarrow> platforms_of build' = platforms_of build"
    using platforms_of_cong by blast
  from 1 2 platforms_of_distinct [of build] 4 show ?thesis by (intro conjI)
qed

text \<open>
  The example of the specification: \<^verbatim>\<open>os_windows\<close> and \<^verbatim>\<open>os_linux\<close> true, the Linux flag
  listed first, gives Windows and Linux, and so does the build with its fields reversed.
\<close>

theorem platforms_inclusive_order_independent_witness:
  "py_getitem sample_info ''build'' = Inr (JObj sample_build) \<and>
   get_file_details sample_info =
     Inr [(''download_url'', JStr ''https://cdn.example/game.jar''), (''build_id'', JNum 999),
          (''type'', JNull), (''added_on'', JNull), (''updated_on'', JNull),
          (''platforms'', JArr [JStr ''Windows'', JStr ''Linux''])] \<and>
   platforms_of sample_build = [''Windows'', ''Linux''] \<and>
   platforms_of (rev sample_build) = [''Windows'', ''Linux''] \<and>
   distinct (platforms_of sample_build)"
proof -
  let ?r = "[(''download_url'', JStr ''https://cdn.example/game.jar''), (''build_id'', JNum 999),
          (''type'', JNull), (''added_on'', JNull), (''updated_on'', JNull),
          (''platforms'', JArr [JStr ''Windows'', JStr ''Linux''])]"
  have a: "py_getitem sample_info ''build'' = Inr (JObj sample_build)" by (simp add: sample_info_def)
  have b: "get_file_details sample_info = Inr ?r" by code_simp
  have c: "platforms_of sample_build = [''Windows'', ''Linux'']" by code_simp
  have d: "platforms_of (rev sample_build) = [''Windows'', ''Linux'']" by code_simp
  have "distinct (platforms_of sample_build)"
    using platforms_inclusive_order_independent [OF a b] by (elim conjE)
  with a b c d show ?thesis by (intro conjI)
qed

section \<open>The applet emitter: theorems\<close>

lemma details_url_keeps:
  "details_url d r = Inr r' \<Longrightarrow> k \<noteq> ''download_url'' \<Longrightarrow> map_of r' k = map_of r k"
  by (auto simp: details_url_def bindE_def map_of_set_item split: if_splits sum.splits)

lemma details_primary_file_keeps:
  "details_primary_file d r = Inr r' \<Longrightarrow> k \<noteq> ''filename'' \<Longrightarrow> k \<noteq> ''filesize'' \<Longrightarrow>
     map_of r' k = map_of r k"
  by (auto simp: details_primary_file_def bindE_def map_of_set_item split: if_splits sum.splits)

lemma details_build_fields_class:
  "map_of (details_build_fields b r) ''java_class_name'' = map_of r ''java_class_name''"
  by (simp add: details_build_fields_def Let_def map_of_set_item)

lemma details_build_class:
  "details_build d r = Inr r' \<Longrightarrow> map_of r' ''java_class_name'' = map_of r ''java_class_name''"
  by (auto simp: details_build_def bindE_def details_build_fields_class
      split: if_splits sum.splits json.splits)

lemma details_java_class:
  "details_java d r = Inr r' \<Longrightarrow> map_of r ''java_class_name'' = None \<Longrightarrow>
     has_key r' ''java_class_name'' \<Longrightarrow> truthy (dict_get r' ''java_class_name'')"
  by (auto simp: details_java_def bindE_def has_key_def dict_get_def map_of_set_item Let_def
      split: if_splits sum.splits)

lemma get_file_details_class_truthy:
  assumes "get_file_details d = Inr fd" "has_key fd ''java_class_name''"
  shows "truthy (dict_get fd ''java_class_name'')"
proof -
  from assms(1) obtain r1 r2 r3 r4 where
    r: "details_url d [] = Inr r1" "details_primary_file d r1 = Inr r2"
       "details_build d r2 = Inr r3" "details_game d r3 = Inr r4" "details_java d r4 = Inr fd"
    unfolding get_file_details_def bindE_Inr by blast
  have "map_of r1 ''java_class_name'' = None"
    using details_url_keeps [OF r(1), of "''java_class_name''"] by simp
  then have "map_of r2 ''java_class_name'' = None"
    using details_primary_file_keeps [OF r(2), of "''java_class_name''"] by simp
  then have "map_of r3 ''java_class_name'' = None"
    using details_build_class [OF r(3)] by simp
  then have "map_of r4 ''java_class_name'' = None"
    using details_game_keeps [OF r(4), of "''java_class_name''"] by simp
  then show ?thesis using details_java_class [OF r(5)] assms(2) by blast
qed

lemma endswith_nonempty: "endswith s ''.jar'' \<Longrightarrow> s \<noteq> []"
  by (auto simp: endswith_def)

lemma jar_file_detected_Some:
  "jar_file_detected dl v = Inr (Some name) \<Longrightarrow> dl \<and> v = JStr name \<and> endswith (lower name) ''.jar'' \<and> name \<noteq> []"
  by (cases v) (auto simp: jar_file_detected_def lower_def endswith_def split: if_splits)

lemma emitter_call_Some:
  "emitter_call opts res fd title = Some (details, dir) \<Longrightarrow>
     create_cheerpj opts \<and> has_key fd ''java_class_name'' \<and>
     details = set_item fd ''title'' (JStr title) \<and> (\<exists>jar_path. res = (True, Path jar_path) \<and> dir = dirname jar_path)"
  by (auto simp: emitter_call_def split: prod.splits bool.splits result_text.splits if_splits)



lemma dict_get_default_has_key:
  "dict_get_default d k (JStr []) = JStr name \<Longrightarrow> name \<noteq> [] \<Longrightarrow>
     has_key d k \<and> dict_get d k = JStr name"
  by (auto simp: dict_get_default_def dict_get_def has_key_def split: option.splits)

text \<open>
  C2, as the specification states it, fails: the emitter tests that the two keys are
  present, not that their values are not empty. Called with an empty filename and an empty
  class name it writes the page and returns success.
\<close>

theorem emitter_accepts_empty_fields:
  "dict_get empty_details ''filename'' = JStr [] \<and>
   dict_get empty_details ''java_class_name'' = JStr [] \<and>
   create_cheerpj_html offline_env out_world empty_details ''out'' =
     (\<lparr>files = [(''out/cheerpj.html'',
                  Cheerpj_page \<lparr>page_title = JStr ''Game'', applet_archive = JStr [],
                                 applet_code = JStr [], applet_height = JNum 480,
                                 applet_width = JNum 640\<rparr>)],
       dirs = [''out''], requests = [], out = [Created_CheerpJ_HTML_file ''out/cheerpj.html'']\<rparr>,
      (True, Path ''out/cheerpj.html''))"
  by code_simp

text \<open>
  C2, amended. The emitter returns the failure for missing fields exactly when the key of
  the class name or the key of the filename is absent from the file details; a value that
  is present and empty is not rejected. On the orchestrator's path the emitter is called
  only with file details that carry a filename that is not empty (it ends in \<^verbatim>\<open>.jar\<close>)
  and a class name that is true in a condition, as \<^verbatim>\<open>get_file_details\<close> stores the class
  name only then.
\<close>

theorem emitter_precondition:
  "(snd (create_cheerpj_html E w fd dir) = (False, Missing_class_or_filename) \<longleftrightarrow>
      \<not> has_key fd ''java_class_name'' \<or> \<not> has_key fd ''filename'') \<and>
   (get_file_details download_info = Inr file_details \<and>
    jar_file_detected (download opts) (dict_get_default file_details ''filename'' (JStr [])) =
      Inr (Some name) \<and>
    emitter_call opts res file_details game_title = Some (details, out_dir) \<longrightarrow>
      has_key details ''filename'' \<and> dict_get details ''filename'' = JStr name \<and> name \<noteq> [] \<and>
      has_key details ''java_class_name'' \<and> truthy (dict_get details ''java_class_name''))"
proof -
  have 1: "snd (create_cheerpj_html E w fd dir) = (False, Missing_class_or_filename) \<longleftrightarrow>
      \<not> has_key fd ''java_class_name'' \<or> \<not> has_key fd ''filename''"
    by (auto simp: create_cheerpj_html_def Let_def split: sum.splits)
  have 2: "has_key details ''filename'' \<and> dict_get details ''filename'' = JStr name \<and> name \<noteq> [] \<and>
      has_key details ''java_class_name'' \<and> truthy (dict_get details ''java_class_name'')"
    if a: "get_file_details download_info = Inr file_details"
      and b: "jar_file_detected (download opts) (dict_get_default file_details ''filename'' (JStr [])) =
        Inr (Some name)"
      and c: "emitter_call opts res file_details game_title = Some (details, out_dir)"
  proof -
    from jar_file_detected_Some [OF b]
    have n: "dict_get_default file_details ''filename'' (JStr []) = JStr name" "name \<noteq> []" by simp_all
    from dict_get_default_has_key [OF n]
    have f: "has_key file_details ''filename''" "dict_get file_details ''filename'' = JStr name"
      by simp_all
    from emitter_call_Some [OF c]
    have k: "has_key file_details ''java_class_name''"
      and d: "details = set_item file_details ''title'' (JStr game_title)" by simp_all
    from get_file_details_class_truthy [OF a k]
    have t: "truthy (dict_get file_details ''java_class_name'')" .
    show ?thesis using f k t n(2) unfolding d by (simp add: has_key_set_item dict_get_set_item)
  qed
  from 1 2 show ?thesis by blast
qed

theorem emitter_precondition_witness:
  "get_file_details applet_info = Inr applet_details \<and>
   jar_file_detected (download all_options)
     (dict_get_default applet_details ''filename'' (JStr [])) = Inr (Some ''Game.JAR'') \<and>
   emitter_call all_options (True, Path ''downloads/My_Game/Game.JAR'') applet_details ''My Game'' =
     Some (set_item applet_details ''title'' (JStr ''My Game''), ''downloads/My_Game'') \<and>
   truthy (dict_get (set_item applet_details ''title'' (JStr ''My Game'')) ''java_class_name'') \<and>
   dict_get (set_item applet_details ''title'' (JStr ''My Game'')) ''filename'' = JStr ''Game.JAR''"
proof -
  have a: "get_file_details applet_info = Inr applet_details" by code_simp
  have b: "jar_file_detected (download all_options)
     (dict_get_default applet_details ''filename'' (JStr [])) = Inr (Some ''Game.JAR'')" by code_simp
  have c: "emitter_call all_options (True, Path ''downloads/My_Game/Game.JAR'') applet_details ''My Game'' =
     Some (set_item applet_details ''title'' (JStr ''My Game''), ''downloads/My_Game'')" by code_simp
  from emitter_precondition [of _ _ _ _ applet_info applet_details all_options "''Game.JAR''"
      "(True, Path ''downloads/My_Game/Game.JAR'')" "''My Game''"
      "set_item applet_details ''title'' (JStr ''My Game'')" "''downloads/My_Game''"] a b c
  have "truthy (dict_get (set_item applet_details ''title'' (JStr ''My Game'')) ''java_class_name'') \<and>
   dict_get (set_item applet_details ''title'' (JStr ''My Game'')) ''filename'' = JStr ''Game.JAR''"
    by blast
  with a b c show ?thesis by (intro conjI) simp_all
qed




section \<open>File transfer: theorems\<close>





lemma path_exists_print [simp]: "path_exists (print m w) p = path_exists w p"
  by (simp add: path_exists_def print_def)

lemma path_exists_prints [simp]: "path_exists (prints ms w) p = path_exists w p"
  by (simp add: path_exists_def prints_def)

lemma print_fields [simp]:
  "files (print m w) = files w" "dirs (print m w) = dirs w" "requests (print m w) = requests w"
  "out (print m w) = out w @ [m]"
  by (simp_all add: print_def)

lemma prints_fields [simp]:
  "files (prints ms w) = files w" "dirs (prints ms w) = dirs w"
  "requests (prints ms w) = requests w" "out (prints ms w) = out w @ ms"
  by (simp_all add: prints_def)







section \<open>The orchestrator: theorems\<close>


















text \<open>
  C7. The code does not isolate every shape failure of build resolution. The gameserver
  answers the first of two builds with a payload whose \<^verbatim>\<open>primary_file\<close> is null: build
  resolution returns that payload, \<^verbatim>\<open>get_file_details\<close> raises on it, nothing catches the
  exception, and the run ends before the second build is looked at.
\<close>

theorem null_primary_file_aborts_run:
  "get_build_download_url online_env empty_world (JNum 3) 12345 =
     (\<lparr>files = [], dirs = [],
       requests = [Post_get_download_url (JNum 3) 12345, Get_gameserver ''t3''], out = []\<rparr>,
      null_file_info) \<and>
   truthy null_file_info \<and>
   get_file_details null_file_info = Inl AttributeError \<and>
   process_builds online_env default_archiver all_options empty_world 12345 ''My Game''
     two_build_game = Inl AttributeError"
  by code_simp

text \<open>
  What the code does isolate: a request that fails is caught in build resolution, which
  then returns \<^verbatim>\<open>None\<close>, and the loop goes on to the remaining builds after a build that
  was not resolved.
\<close>

lemma unresolved_build_is_skipped:
  "py_getitem build ''id'' = Inr build_id \<Longrightarrow>
   get_build_download_url E (the_world st) build_id game_id = (w1, download_info) \<Longrightarrow>
   \<not> truthy download_info \<Longrightarrow>
   for_builds E self opts game_id title (build # builds) st =
     for_builds E self opts game_id title builds (st\<lparr>the_world := w1\<rparr>)"
  by (simp add: process_build_def bindE_def)

lemma failed_request_resolves_to_none:
  "fetch_json E w (Post_get_download_url build_id game_id) = (w1, Inl e) \<Longrightarrow>
   get_build_download_url E w build_id game_id =
     (print (Error_fetching_build build_id e) w1, JNull)"
  by (simp add: get_build_download_url_def get_build_download_url_body_def)

end
